theory Spec2Isabelle
  imports Main "HOL-Library.Signed_Division" "HOL-Library.Monad_Syntax"
begin

section \<open>JavaScript built-ins used by the program\<close>

text \<open>
  Strings are lists of code units. The one non-ASCII character the program writes, the
  camera emoji that opens every description, is written as its four UTF-8 bytes.

  \<open>String.prototype.includes\<close> scans the haystack from the left and tests, at every
  position, whether the needle starts there.
\<close>

fun startsWith :: "string \<Rightarrow> string \<Rightarrow> bool" where
  "startsWith s [] = True"
| "startsWith [] (c # cs) = False"
| "startsWith (x # xs) (c # cs) = (x = c \<and> startsWith xs cs)"

fun includesStr :: "string \<Rightarrow> string \<Rightarrow> bool" where
  "includesStr [] t = startsWith [] t"
| "includesStr (x # xs) t = (startsWith (x # xs) t \<or> includesStr xs t)"

text \<open>Truthiness of a string (\<open>''\<close> is falsy) and of a string that may be null or undefined.\<close>

definition truthy :: "string \<Rightarrow> bool" where
  "truthy s = (s \<noteq> [])"

definition truthyOpt :: "string option \<Rightarrow> bool" where
  "truthyOpt v = (case v of None \<Rightarrow> False | Some s \<Rightarrow> truthy s)"

text \<open>\<open>v || ''\<close> and \<open>v || null\<close> on a string that may be null or undefined.\<close>

definition orEmpty :: "string option \<Rightarrow> string" where
  "orEmpty v = (case v of None \<Rightarrow> [] | Some s \<Rightarrow> s)"

definition orNull :: "string option \<Rightarrow> string option" where
  "orNull v = (if truthyOpt v then v else None)"

text \<open>
  \<open>Math.min(...xs)\<close> and \<open>Math.max(...xs)\<close>. The program calls them on non-empty lists only
  (it tests \<open>sessionTimes.length > 0\<close> first), so the empty case is not given.
\<close>

fun Math_min :: "int list \<Rightarrow> int" where
  "Math_min (x # xs) = fold min xs x"

fun Math_max :: "int list \<Rightarrow> int" where
  "Math_max (x # xs) = fold max xs x"

text \<open>An integer inside a template literal: its decimal digits, with a sign when negative.\<close>

fun showNat :: "nat \<Rightarrow> string" where
  "showNat n = (if n < 10 then [char_of (48 + n)] else showNat (n div 10) @ [char_of (48 + n mod 10)])"

definition showInt :: "int \<Rightarrow> string" where
  "showInt i = (if i < 0 then CHR ''-'' # showNat (nat (- i)) else showNat (nat i))"

text \<open>
  A \<open>Date\<close> is its \<open>getTime()\<close>: milliseconds since the epoch. Parsing a timestamp
  (\<open>new Date(s)\<close>), printing one (\<open>toISOString\<close>, \<open>toLocaleTimeString\<close>) and
  Unicode lower-casing belong to the runtime and its locale; the functions below take
  them as parameters. The provider's timestamps are RFC 3339 strings, on which parsing
  gives a number. \<open>parseInt\<close> is \<open>parseInt(s, 10)\<close>, with \<open>None\<close> for \<open>NaN\<close>; \<open>isUrl\<close> and
  \<open>isEmail\<close> are the checks behind the validation library's \<open>url()\<close> and \<open>email()\<close>.
\<close>

type_synonym Date = int

record JsRuntime =
  parseDate :: "string \<Rightarrow> Date"
  toISOString :: "Date \<Rightarrow> string"
  toLocaleTimeString :: "Date \<Rightarrow> string"
  toLowerCase :: "string \<Rightarrow> string"
  parseInt :: "string \<Rightarrow> int option"
  isUrl :: "string \<Rightarrow> bool"
  isEmail :: "string \<Rightarrow> bool"

section \<open>utils/common.ts\<close>

record Duration =
  hours :: int
  minutes :: int

text \<open>\<open>Math.floor\<close> of a quotient rounds down; \<open>%\<close> takes the sign of the dividend.\<close>

definition formatDuration :: "int \<Rightarrow> Duration" where
  "formatDuration seconds =
     \<lparr> hours = seconds div 3600, minutes = (seconds smod 3600) div 60 \<rparr>"

section \<open>types/google-meet.ts\<close>

record ParticipantSession =
  ps_name :: string
  ps_startTime :: string
  ps_endTime :: "string option"

record MeetingSession =
  meetingId :: string
  meetingCode :: string
  meetingUri :: string
  startTime :: Date
  endTime :: Date
  duration :: int

text \<open>What the Meet API sends: every field may be missing.\<close>

record ApiSession =
  as_name :: "string option"
  as_startTime :: "string option"
  as_endTime :: "string option"

record ApiParticipant =
  ap_name :: "string option"
  ap_user :: "string option"
  ap_displayName :: "string option"

record Space =
  space_meetingCode :: "string option"
  space_meetingUri :: "string option"

record ConferenceRecord =
  cr_name :: "string option"
  cr_startTime :: "string option"
  cr_space :: "Space option"

record Page =
  conferenceRecords :: "ConferenceRecord list option"
  nextPageToken :: "string option"

text \<open>
  The Meet API as the service sees it: each call either throws (\<open>Inl\<close> the message) or
  answers. \<open>isCurrentUser\<close> is the test of lines 236--242, which compares the participant
  with the configured e-mail address after lower-casing.
\<close>

record MeetApi =
  listConferenceRecords :: "string option \<Rightarrow> string + Page"
  listParticipants :: "string \<Rightarrow> string + ApiParticipant list option"
  listParticipantSessions :: "string \<Rightarrow> string + ApiSession list option"
  isCurrentUser :: "ApiParticipant \<Rightarrow> bool"

section \<open>services/google-meet-service.ts\<close>

subsection \<open>getUserParticipantSessions\<close>

text \<open>Lines 254--262: the sessions of one participant that have a name and a start.\<close>

definition pushSessions :: "ApiSession list \<Rightarrow> ParticipantSession list \<Rightarrow> ParticipantSession list" where
  "pushSessions sessions userSessions =
     userSessions @
     map (\<lambda>session. \<lparr> ps_name = orEmpty (as_name session),
                      ps_startTime = orEmpty (as_startTime session),
                      ps_endTime = orNull (as_endTime session) \<rparr>)
       (filter (\<lambda>session. truthyOpt (as_name session) \<and> truthyOpt (as_startTime session)) sessions)"

text \<open>Lines 228--266: the loop over the participants; a failing call aborts it.\<close>

fun participantsLoop ::
  "MeetApi \<Rightarrow> ApiParticipant list \<Rightarrow> ParticipantSession list \<Rightarrow> string + ParticipantSession list" where
  "participantsLoop api [] userSessions = Inr userSessions"
| "participantsLoop api (participant # rest) userSessions =
     (case ap_name participant of
        None \<Rightarrow> participantsLoop api rest userSessions
      | Some pname \<Rightarrow>
          if \<not> truthy pname then participantsLoop api rest userSessions
          else if \<not> isCurrentUser api participant then participantsLoop api rest userSessions
          else (case listParticipantSessions api pname of
                  Inl e \<Rightarrow> Inl e
                | Inr None \<Rightarrow> participantsLoop api rest userSessions
                | Inr (Some sessions) \<Rightarrow>
                    participantsLoop api rest (pushSessions sessions userSessions)))"

definition getUserParticipantSessions :: "MeetApi \<Rightarrow> string \<Rightarrow> string + ParticipantSession list" where
  "getUserParticipantSessions api conferenceName =
     (case listParticipants api conferenceName of
        Inl e \<Rightarrow> Inl e
      | Inr None \<Rightarrow> Inr []
      | Inr (Some participants) \<Rightarrow> participantsLoop api participants [])"

subsection \<open>getConferenceRecords\<close>

text \<open>Lines 160--165: the sessions with a start and an end, as pairs of instants.\<close>

definition sessionTimes :: "JsRuntime \<Rightarrow> ParticipantSession list \<Rightarrow> (Date \<times> Date) list" where
  "sessionTimes js userSessions =
     map (\<lambda>s. (parseDate js (ps_startTime s), parseDate js (the (ps_endTime s))))
       (filter (\<lambda>s. truthy (ps_startTime s) \<and> truthyOpt (ps_endTime s)) userSessions)"

text \<open>
  Lines 158--187: the aggregation of one conference record's sessions. \<open>None\<close> is the
  path that pushes nothing.
\<close>

definition aggregate ::
  "JsRuntime \<Rightarrow> string \<Rightarrow> Space option \<Rightarrow> ParticipantSession list \<Rightarrow> MeetingSession option" where
  "aggregate js recordName space userSessions =
     (if length userSessions > 0 then
        (let times = sessionTimes js userSessions in
         if length times > 0 then
           (let earliestStart = Math_min (map fst times);
                latestEnd = Math_max (map snd times);
                totalDuration = (latestEnd - earliestStart) div 1000
            in Some \<lparr> meetingId = recordName,
                      meetingCode = (case space of None \<Rightarrow> [] | Some sp \<Rightarrow> orEmpty (space_meetingCode sp)),
                      meetingUri = (case space of None \<Rightarrow> [] | Some sp \<Rightarrow> orEmpty (space_meetingUri sp)),
                      startTime = earliestStart,
                      endTime = latestEnd,
                      duration = totalDuration \<rparr>)
         else None)
      else None)"

text \<open>Lines 151--188: the loop over the records of one page.\<close>

fun recordsLoop ::
  "JsRuntime \<Rightarrow> MeetApi \<Rightarrow> ConferenceRecord list \<Rightarrow> MeetingSession list \<Rightarrow> string + MeetingSession list" where
  "recordsLoop js api [] meetings = Inr meetings"
| "recordsLoop js api (confRecord # rest) meetings =
     (if \<not> truthyOpt (cr_name confRecord) \<or> \<not> truthyOpt (cr_startTime confRecord)
      then recordsLoop js api rest meetings
      else (case getUserParticipantSessions api (orEmpty (cr_name confRecord)) of
              Inl e \<Rightarrow> Inl e
            | Inr userSessions \<Rightarrow>
                (case aggregate js (orEmpty (cr_name confRecord)) (cr_space confRecord) userSessions of
                   None \<Rightarrow> recordsLoop js api rest meetings
                 | Some meeting \<Rightarrow> recordsLoop js api rest (meetings @ [meeting]))))"

text \<open>
  Lines 143--197: the loop over the pages. It ends when a page carries no next-page
  token; a provider that never stops sending tokens keeps it running, so the result is
  an option and \<open>None\<close> stands for a call that does not return.
\<close>

partial_function (option) pagesLoop ::
  "JsRuntime \<Rightarrow> MeetApi \<Rightarrow> string option \<Rightarrow> MeetingSession list \<Rightarrow> (string + MeetingSession list) option" where
  "pagesLoop js api pageToken meetings =
     (case listConferenceRecords api pageToken of
        Inl e \<Rightarrow> Some (Inl e)
      | Inr page \<Rightarrow>
          (case (case conferenceRecords page of
                   None \<Rightarrow> Inr meetings
                 | Some records \<Rightarrow> recordsLoop js api records meetings) of
             Inl e \<Rightarrow> Some (Inl e)
           | Inr meetings' \<Rightarrow>
               if truthyOpt (nextPageToken page)
               then pagesLoop js api (nextPageToken page) meetings'
               else Some (Inr meetings')))"

definition getConferenceRecords :: "JsRuntime \<Rightarrow> MeetApi \<Rightarrow> (string + MeetingSession list) option" where
  "getConferenceRecords js api = pagesLoop js api None []"

section \<open>types/clockify.ts\<close>

record ClockifyUser =
  cu_id :: string
  cu_email :: string
  cu_name :: string

record ClockifyWorkspace =
  cw_id :: string
  cw_name :: string

record ClockifyProject =
  cp_id :: string
  cp_name :: string

record ClockifyTimeEntry =
  te_id :: string
  te_description :: string
  te_projectId :: string
  te_billable :: bool
  te_start :: string
  te_end :: string

record CreateTimeEntryRequest =
  req_start :: string
  req_end :: string
  req_billable :: bool
  req_description :: string
  projectId :: "string option"

text \<open>
  The answer to a \<open>fetch\<close>: the call throws (\<open>Rejected\<close> the message), or the response is
  not ok (\<open>NotOk\<close> its status text and its body), or it is ok and carries a value.
\<close>

datatype 'a HttpResult = Rejected string | NotOk string string | Ok 'a

record ClockifyApi =
  getUser :: "ClockifyUser HttpResult"
  getWorkspaces :: "ClockifyWorkspace list HttpResult"
  getProjects :: "string \<Rightarrow> ClockifyProject list HttpResult"
  postProject :: "string \<Rightarrow> string \<Rightarrow> ClockifyProject HttpResult"

section \<open>config/env.ts\<close>

text \<open>
  \<open>process.env\<close>: the variables of the process, each a name and a value; a name is
  looked up from the front.
\<close>

type_synonym ProcessEnv = "(string \<times> string) list"

text \<open>The object the schema produces: its ten keys and no other.\<close>

record Env =
  GOOGLE_CLIENT_ID :: string
  GOOGLE_CLIENT_SECRET :: string
  GOOGLE_REDIRECT_URI :: string
  GOOGLE_USER_EMAIL :: string
  CLOCKIFY_API_TOKEN :: string
  NODE_ENV :: string
  SYNC_DAYS :: nat
  CLOCKIFY_API_BASE :: string
  CLOCKIFY_API_DELAY :: nat
  MEET_PROJECT_NAME :: string

text \<open>
  A key of the schema that is a string with a check, and one that is a string turned
  into a number by \<open>parseInt\<close> and refused when it is \<open>NaN\<close> or outside its range. \<open>None\<close> is
  a validation issue: the variable is missing or its value is refused.
\<close>

definition stringKey :: "ProcessEnv \<Rightarrow> string \<Rightarrow> (string \<Rightarrow> bool) \<Rightarrow> string option" where
  "stringKey processEnv key check =
     (case map_of processEnv key of
        None \<Rightarrow> None
      | Some val \<Rightarrow> if check val then Some val else None)"

definition numberKey :: "JsRuntime \<Rightarrow> ProcessEnv \<Rightarrow> string \<Rightarrow> int \<Rightarrow> int \<Rightarrow> nat option" where
  "numberKey js processEnv key lo hi =
     (case map_of processEnv key of
        None \<Rightarrow> None
      | Some val \<Rightarrow>
          (case parseInt js val of
             None \<Rightarrow> None
           | Some n \<Rightarrow> if lo \<le> n \<and> n \<le> hi then Some (nat n) else None))"

text \<open>
  Lines 4--40 and 64: \<open>envSchema.parse(process.env)\<close>. The result has the keys the
  schema declares; every other variable of the process is dropped.
\<close>

definition envSchema_parse :: "JsRuntime \<Rightarrow> ProcessEnv \<Rightarrow> Env option" where
  "envSchema_parse js processEnv =
     do {
       clientId \<leftarrow> stringKey processEnv ''GOOGLE_CLIENT_ID'' (\<lambda>val. 1 \<le> length val);
       clientSecret \<leftarrow> stringKey processEnv ''GOOGLE_CLIENT_SECRET'' (\<lambda>val. 1 \<le> length val);
       redirectUri \<leftarrow> stringKey processEnv ''GOOGLE_REDIRECT_URI'' (isUrl js);
       userEmail \<leftarrow> stringKey processEnv ''GOOGLE_USER_EMAIL'' (isEmail js);
       apiToken \<leftarrow> stringKey processEnv ''CLOCKIFY_API_TOKEN'' (\<lambda>val. 1 \<le> length val);
       nodeEnv \<leftarrow> stringKey processEnv ''NODE_ENV''
                    (\<lambda>val. val \<in> set [''development'', ''production'', ''test'']);
       syncDays \<leftarrow> numberKey js processEnv ''SYNC_DAYS'' 1 365;
       apiBase \<leftarrow> stringKey processEnv ''CLOCKIFY_API_BASE'' (isUrl js);
       apiDelay \<leftarrow> numberKey js processEnv ''CLOCKIFY_API_DELAY'' 0 10000;
       projectName \<leftarrow> stringKey processEnv ''MEET_PROJECT_NAME'' (\<lambda>val. 1 \<le> length val);
       Some \<lparr> GOOGLE_CLIENT_ID = clientId, GOOGLE_CLIENT_SECRET = clientSecret,
              GOOGLE_REDIRECT_URI = redirectUri, GOOGLE_USER_EMAIL = userEmail,
              CLOCKIFY_API_TOKEN = apiToken, NODE_ENV = nodeEnv, SYNC_DAYS = syncDays,
              CLOCKIFY_API_BASE = apiBase, CLOCKIFY_API_DELAY = apiDelay,
              MEET_PROJECT_NAME = projectName \<rparr>
     }"

text \<open>
  Lines 51--118: \<open>validateEnvironment\<close>, on its first call in a process. \<open>None\<close> is the
  path that prints the issues and ends the process.
\<close>

definition validateEnvironment :: "JsRuntime \<Rightarrow> ProcessEnv \<Rightarrow> Env option" where
  "validateEnvironment js processEnv = envSchema_parse js processEnv"

text \<open>
  The worker reads \<open>env.DRY_RUN\<close> on the object \<open>validateEnvironment\<close> returned. The schema
  declares no such key, so the object has no such property and the read gives
  \<open>undefined\<close>, here \<open>None\<close>, whatever the variables of the process are. \<open>truthyFlag\<close> is
  the test \<open>if (env.DRY_RUN)\<close> makes of it.
\<close>

definition DRY_RUN :: "Env \<Rightarrow> bool option" where
  "DRY_RUN env = None"

definition truthyFlag :: "bool option \<Rightarrow> bool" where
  "truthyFlag v = (case v of None \<Rightarrow> False | Some b \<Rightarrow> b)"

section \<open>services/clockify-service.ts\<close>

record ClockifyState =
  workspaceId :: "string option"
  userId :: "string option"
  leagueProjectId :: "string option"

definition initialState :: ClockifyState where
  "initialState = \<lparr> workspaceId = None, userId = None, leagueProjectId = None \<rparr>"

text \<open>
  Every method returns what it throws or returns together with the service state it
  leaves: the assignments made before a throw stay.
\<close>

definition getOrCreateLeagueProject ::
  "JsRuntime \<Rightarrow> Env \<Rightarrow> ClockifyApi \<Rightarrow> ClockifyState \<Rightarrow> (string + unit) \<times> ClockifyState" where
  "getOrCreateLeagueProject js env api st =
     (if \<not> truthyOpt (workspaceId st) then (Inl ''Workspace ID not set'', st)
      else
        (case getProjects api (orEmpty (workspaceId st)) of
           Rejected m \<Rightarrow> (Inl m, st)
         | NotOk statusText errorText \<Rightarrow> (Inl (''Failed to get projects: '' @ statusText), st)
         | Ok projects \<Rightarrow>
             (case find (\<lambda>p. toLowerCase js (cp_name p) = toLowerCase js (MEET_PROJECT_NAME env)) projects of
                Some meetProject \<Rightarrow> (Inr (), st\<lparr>leagueProjectId := Some (cp_id meetProject)\<rparr>)
              | None \<Rightarrow>
                  (case postProject api (orEmpty (workspaceId st)) (MEET_PROJECT_NAME env) of
                     Rejected m \<Rightarrow> (Inl m, st)
                   | NotOk statusText errorText \<Rightarrow>
                       (Inl (''Failed to create project: '' @ statusText @ '' - '' @ errorText), st)
                   | Ok newProject \<Rightarrow> (Inr (), st\<lparr>leagueProjectId := Some (cp_id newProject)\<rparr>)))))"

definition initialize ::
  "JsRuntime \<Rightarrow> Env \<Rightarrow> ClockifyApi \<Rightarrow> ClockifyState \<Rightarrow> (string + unit) \<times> ClockifyState" where
  "initialize js env api st =
     (case getUser api of
        Rejected m \<Rightarrow> (Inl m, st)
      | NotOk statusText errorText \<Rightarrow> (Inl (''Failed to get Clockify user info: '' @ statusText), st)
      | Ok user \<Rightarrow>
          (let st1 = st\<lparr>userId := Some (cu_id user)\<rparr> in
           case getWorkspaces api of
             Rejected m \<Rightarrow> (Inl m, st1)
           | NotOk statusText errorText \<Rightarrow>
               (Inl (''Failed to get Clockify workspaces: '' @ statusText), st1)
           | Ok workspaces \<Rightarrow>
               (case workspaces of
                  [] \<Rightarrow> (Inl ''No Clockify workspaces found'', st1)
                | w # ws \<Rightarrow>
                    getOrCreateLeagueProject js env api (st1\<lparr>workspaceId := Some (cw_id w)\<rparr>))))"

text \<open>
  \<open>createTimeEntry\<close> assigns to a field of the object its caller passed, so it returns that
  object as it leaves it, next to what it throws or returns. \<open>post\<close> is the server's answer
  to the request body.
\<close>

definition createTimeEntry ::
  "ClockifyState \<Rightarrow> (CreateTimeEntryRequest \<Rightarrow> ClockifyTimeEntry HttpResult) \<Rightarrow> CreateTimeEntryRequest
     \<Rightarrow> CreateTimeEntryRequest \<times> (string + ClockifyTimeEntry)" where
  "createTimeEntry st post entry =
     (if \<not> truthyOpt (workspaceId st) then (entry, Inl ''Clockify client not initialized'')
      else
        (let entry' = (if truthyOpt (leagueProjectId st)
                       then entry\<lparr>projectId := leagueProjectId st\<rparr> else entry)
         in (entry',
             case post entry' of
               Rejected m \<Rightarrow> Inl m
             | NotOk statusText errorText \<Rightarrow>
                 Inl (''Failed to create time entry: '' @ statusText @ '' - '' @ errorText)
             | Ok created \<Rightarrow> Inr created)))"

definition isMatchSynced :: "string \<Rightarrow> ClockifyTimeEntry list \<Rightarrow> bool" where
  "isMatchSynced matchId existingEntries =
     list_ex (\<lambda>entry. includesStr (te_description entry) (''[Match:'' @ matchId @ '']'')) existingEntries"

section \<open>workers/sync-worker.ts\<close>

text \<open>
  The remote calls a job makes, in the order it makes them. A creation call carries the
  candidate object as the service left it and what the call threw or returned.
\<close>

datatype Call =
  GetConferenceRecords
| GetTimeEntriesForDateRange
| CreateTimeEntry CreateTimeEntryRequest "string + ClockifyTimeEntry"
| Sleep nat

fun createCalls :: "Call list \<Rightarrow> CreateTimeEntryRequest list" where
  "createCalls [] = []"
| "createCalls (CreateTimeEntry entry outcome # cs) = entry # createCalls cs"
| "createCalls (c # cs) = createCalls cs"

fun createdEntries :: "Call list \<Rightarrow> CreateTimeEntryRequest list" where
  "createdEntries [] = []"
| "createdEntries (CreateTimeEntry entry (Inr created) # cs) = entry # createdEntries cs"
| "createdEntries (c # cs) = createdEntries cs"

subsection \<open>One meeting (lines 77--122)\<close>

definition meetingIdentifier :: "MeetingSession \<Rightarrow> string" where
  "meetingIdentifier meeting = ''[Meet:'' @ meetingId meeting @ '']''"

definition alreadySynced :: "string \<Rightarrow> ClockifyTimeEntry list \<Rightarrow> bool" where
  "alreadySynced ident existingEntries =
     list_ex (\<lambda>entry. includesStr (te_description entry) ident) existingEntries"

definition camera :: string where
  "camera = [CHR 0xF0, CHR 0x9F, CHR 0x8E, CHR 0xA5]"

definition meetingDisplay :: "JsRuntime \<Rightarrow> MeetingSession \<Rightarrow> string" where
  "meetingDisplay js meeting =
     (if truthy (meetingCode meeting) then ''Meet: '' @ meetingCode meeting
      else ''Google Meet ('' @ toLocaleTimeString js (startTime meeting) @ '')'')"

definition description :: "JsRuntime \<Rightarrow> MeetingSession \<Rightarrow> string" where
  "description js meeting =
     (let d = formatDuration (duration meeting) in
      camera @ '' '' @ meetingDisplay js meeting @ '' | '' @ showInt (hours d) @ ''h '' @
      showInt (minutes d) @ ''m '' @ meetingIdentifier meeting)"

definition timeEntry :: "JsRuntime \<Rightarrow> MeetingSession \<Rightarrow> CreateTimeEntryRequest" where
  "timeEntry js meeting =
     \<lparr> req_start = toISOString js (startTime meeting),
       req_end = toISOString js (endTime meeting),
       req_billable = False,
       req_description = description js meeting,
       projectId = None \<rparr>"

record LoopState =
  syncedCount :: nat
  skippedCount :: nat
  failedCount :: nat
  calls :: "Call list"
  postCount :: nat

text \<open>
  \<open>post i\<close> is the server's answer to the \<open>i\<close>-th creation call of the job, counted from 0.
\<close>

definition syncMeeting ::
  "JsRuntime \<Rightarrow> Env \<Rightarrow> ClockifyState \<Rightarrow> (nat \<Rightarrow> CreateTimeEntryRequest \<Rightarrow> ClockifyTimeEntry HttpResult)
     \<Rightarrow> ClockifyTimeEntry list \<Rightarrow> MeetingSession \<Rightarrow> LoopState \<Rightarrow> LoopState" where
  "syncMeeting js env st post existingEntries meeting s =
     (if alreadySynced (meetingIdentifier meeting) existingEntries
      then s\<lparr>skippedCount := skippedCount s + 1\<rparr>
      else if truthyFlag (DRY_RUN env)
      then s\<lparr>syncedCount := syncedCount s + 1\<rparr>
      else
        (case createTimeEntry st (post (postCount s)) (timeEntry js meeting) of
           (entry, Inr created) \<Rightarrow>
             s\<lparr>syncedCount := syncedCount s + 1,
               calls := calls s @ [CreateTimeEntry entry (Inr created), Sleep (CLOCKIFY_API_DELAY env)],
               postCount := postCount s + 1\<rparr>
         | (entry, Inl errorMessage) \<Rightarrow>
             s\<lparr>failedCount := failedCount s + 1,
               calls := calls s @ [CreateTimeEntry entry (Inl errorMessage)] @
                 (if includesStr errorMessage ''429'' \<or> includesStr errorMessage ''Too Many Requests''
                  then [Sleep 200] else []),
               postCount := postCount s + 1\<rparr>))"

subsection \<open>The job\<close>

record Stats =
  meetings_found :: nat
  synced :: nat
  skipped :: nat
  failed :: nat
  total_in_clockify :: "nat option"

record SyncResult =
  status :: string
  message :: string
  stats :: Stats
  dry_run :: "bool option"

text \<open>
  What the outside world answers during one job. \<open>meetInitialize\<close> is what
  \<open>meetService.initialize()\<close> throws or returns, \<open>conferenceRecordsResult\<close> what
  \<open>meetService.getConferenceRecords\<close> throws (\<open>Inl\<close>) or returns for the window of the
  job, and \<open>timeEntriesResult\<close> what \<open>clockifyService.getTimeEntriesForDateRange\<close>, which
  reads the entries of the window page by page, throws or returns. \<open>postTimeEntry i\<close> is
  the server's answer to the job's \<open>i\<close>-th creation call.
\<close>

record Remote =
  meetInitialize :: "string + unit"
  clockifyApi :: ClockifyApi
  conferenceRecordsResult :: "string + MeetingSession list"
  timeEntriesResult :: "string + ClockifyTimeEntry list"
  postTimeEntry :: "nat \<Rightarrow> CreateTimeEntryRequest \<Rightarrow> ClockifyTimeEntry HttpResult"

text \<open>
  Lines 39--150: the reconciliation pass, entered with both services initialised. It
  returns what the job throws (\<open>Inl\<close>) or returns, and the calls it made.
\<close>

definition syncPass ::
  "JsRuntime \<Rightarrow> Env \<Rightarrow> ClockifyState \<Rightarrow> Remote \<Rightarrow> (string + SyncResult) \<times> Call list" where
  "syncPass js env st remote =
     (case conferenceRecordsResult remote of
        Inl e \<Rightarrow> (Inl e, [GetConferenceRecords])
      | Inr meetings \<Rightarrow>
          if length meetings = 0
          then (Inr \<lparr> status = ''success'', message = ''No meetings found'',
                      stats = \<lparr> meetings_found = 0, synced = 0, skipped = 0, failed = 0,
                                total_in_clockify = None \<rparr>,
                      dry_run = None \<rparr>,
                [GetConferenceRecords])
          else
            (case timeEntriesResult remote of
               Inl e \<Rightarrow> (Inl e, [GetConferenceRecords, GetTimeEntriesForDateRange])
             | Inr existingEntries \<Rightarrow>
                 (let existingMeetEntries =
                        filter (\<lambda>entry. includesStr (te_description entry) ''[Meet:'') existingEntries;
                      s = fold (syncMeeting js env st (postTimeEntry remote) existingEntries) meetings
                            \<lparr> syncedCount = 0, skippedCount = 0, failedCount = 0,
                              calls = [GetConferenceRecords, GetTimeEntriesForDateRange],
                              postCount = 0 \<rparr>
                  in (Inr \<lparr> status = ''success'', message = ''Sync completed'',
                            stats = \<lparr> meetings_found = length meetings,
                                      synced = syncedCount s,
                                      skipped = skippedCount s,
                                      failed = failedCount s,
                                      total_in_clockify = Some (length existingMeetEntries + syncedCount s) \<rparr>,
                            dry_run = DRY_RUN env \<rparr>,
                      calls s))))"

text \<open>
  Lines 21--150: the validation of the environment (line 21), the initialisations
  (lines 27--28), then the pass. \<open>None\<close> is the process ending in the validation.
\<close>

definition processSyncJob ::
  "JsRuntime \<Rightarrow> ProcessEnv \<Rightarrow> Remote \<Rightarrow> ((string + SyncResult) \<times> Call list) option" where
  "processSyncJob js processEnv remote =
     (case validateEnvironment js processEnv of
        None \<Rightarrow> None
      | Some env \<Rightarrow>
          Some (case meetInitialize remote of
                  Inl e \<Rightarrow> (Inl e, [])
                | Inr u \<Rightarrow>
                    (case initialize js env (clockifyApi remote) initialState of
                       (Inl e, st) \<Rightarrow> (Inl e, [])
                     | (Inr u', st) \<Rightarrow> syncPass js env st remote)))"

section \<open>scripts/index.ts\<close>

text \<open>Lines 79 and 92--93: the identifier and the description the command-line script builds.\<close>

definition script_meetingIdentifier :: "JsRuntime \<Rightarrow> MeetingSession \<Rightarrow> string" where
  "script_meetingIdentifier js meeting =
     ''[Meet:'' @ meetingId meeting @ '':'' @ toISOString js (startTime meeting) @ '']''"

definition script_description :: "JsRuntime \<Rightarrow> MeetingSession \<Rightarrow> string" where
  "script_description js meeting =
     (let d = formatDuration (duration meeting);
          meetingCodeDisplay = (if truthy (meetingCode meeting) then ''Code: '' @ meetingCode meeting
                                else ''Meeting'')
      in camera @ '' '' @ meetingCodeDisplay @ '' | '' @ showInt (hours d) @ ''h '' @
         showInt (minutes d) @ ''m '' @ script_meetingIdentifier js meeting)"

text \<open>Lines 73--116: one turn of the script's loop. The script has no dry-run mode.\<close>

definition script_syncMeeting ::
  "JsRuntime \<Rightarrow> Env \<Rightarrow> ClockifyState \<Rightarrow> (nat \<Rightarrow> CreateTimeEntryRequest \<Rightarrow> ClockifyTimeEntry HttpResult)
     \<Rightarrow> ClockifyTimeEntry list \<Rightarrow> MeetingSession \<Rightarrow> LoopState \<Rightarrow> LoopState" where
  "script_syncMeeting js env st post existingEntries meeting s =
     (if alreadySynced (script_meetingIdentifier js meeting) existingEntries
      then s\<lparr>skippedCount := skippedCount s + 1\<rparr>
      else
        (case createTimeEntry st (post (postCount s))
                \<lparr> req_start = toISOString js (startTime meeting),
                  req_end = toISOString js (endTime meeting),
                  req_billable = False,
                  req_description = script_description js meeting,
                  projectId = None \<rparr> of
           (entry, Inr created) \<Rightarrow>
             s\<lparr>syncedCount := syncedCount s + 1,
               calls := calls s @ [CreateTimeEntry entry (Inr created), Sleep (CLOCKIFY_API_DELAY env)],
               postCount := postCount s + 1\<rparr>
         | (entry, Inl errorMessage) \<Rightarrow>
             s\<lparr>failedCount := failedCount s + 1,
               calls := calls s @ [CreateTimeEntry entry (Inl errorMessage)] @
                 (if includesStr errorMessage ''429'' \<or> includesStr errorMessage ''Too Many Requests''
                  then [Sleep 200] else []),
               postCount := postCount s + 1\<rparr>))"

section \<open>Inputs of the worked examples\<close>

text \<open>
  A runtime that parses and prints the instants of the aggregation example, 10:00,
  10:20, 10:25 and 10:40 on 18 October 2025 (UTC), and 09:00 of that day, and that reads
  the two numbers of the example environment.
\<close>

definition exampleParse :: "string \<Rightarrow> Date" where
  "exampleParse s =
     (if s = ''2025-10-18T09:00:00Z'' then 1760778000000
      else if s = ''2025-10-18T10:00:00Z'' then 1760781600000
      else if s = ''2025-10-18T10:20:00Z'' then 1760782800000
      else if s = ''2025-10-18T10:25:00Z'' then 1760783100000
      else if s = ''2025-10-18T10:40:00Z'' then 1760784000000
      else 0)"

definition examplePrint :: "Date \<Rightarrow> string" where
  "examplePrint t =
     (if t = 1760781600000 then ''2025-10-18T10:00:00.000Z''
      else if t = 1760782800000 then ''2025-10-18T10:20:00.000Z''
      else if t = 1760783100000 then ''2025-10-18T10:25:00.000Z''
      else if t = 1760784000000 then ''2025-10-18T10:40:00.000Z''
      else ''1970-01-01T00:00:00.000Z'')"

definition exampleParseInt :: "string \<Rightarrow> int option" where
  "exampleParseInt s = (if s = ''7'' then Some 7 else if s = ''50'' then Some 50 else None)"

definition exampleJs :: JsRuntime where
  "exampleJs = \<lparr> parseDate = exampleParse, toISOString = examplePrint,
                 toLocaleTimeString = (\<lambda>t. ''10:00:00 AM''), toLowerCase = (\<lambda>s. s),
                 parseInt = exampleParseInt, isUrl = (\<lambda>s. startsWith s ''http''),
                 isEmail = (\<lambda>s. CHR ''@'' \<in> set s) \<rparr>"

text \<open>
  The user's sessions in one meeting: one from 09:00 that has not ended, and the two of
  the aggregation example. Then a session that ends before it starts.
\<close>

definition exampleSessions :: "ParticipantSession list" where
  "exampleSessions =
     [\<lparr> ps_name = ''s0'', ps_startTime = ''2025-10-18T09:00:00Z'', ps_endTime = None \<rparr>,
      \<lparr> ps_name = ''s1'', ps_startTime = ''2025-10-18T10:00:00Z'', ps_endTime = Some ''2025-10-18T10:20:00Z'' \<rparr>,
      \<lparr> ps_name = ''s2'', ps_startTime = ''2025-10-18T10:25:00Z'', ps_endTime = Some ''2025-10-18T10:40:00Z'' \<rparr>]"

definition backwardSession :: ParticipantSession where
  "backwardSession =
     \<lparr> ps_name = ''s1'', ps_startTime = ''2025-10-18T10:20:00Z'', ps_endTime = Some ''2025-10-18T10:00:00Z'' \<rparr>"

text \<open>A Meet API with one conference record and the three sessions above.\<close>

definition exampleApiRejoin :: MeetApi where
  "exampleApiRejoin =
     \<lparr> listConferenceRecords = (\<lambda>pageToken.
         Inr \<lparr> conferenceRecords =
                 Some [\<lparr> cr_name = Some ''conferenceRecords/abc'',
                         cr_startTime = Some ''2025-10-18T09:00:00Z'',
                         cr_space = None \<rparr>],
               nextPageToken = None \<rparr>),
       listParticipants = (\<lambda>conferenceName.
         Inr (Some [\<lparr> ap_name = Some ''conferenceRecords/abc/participants/p1'',
                      ap_user = Some ''users/me'', ap_displayName = Some ''Me'' \<rparr>])),
       listParticipantSessions = (\<lambda>participantName.
         Inr (Some [\<lparr> as_name = Some ''s0'', as_startTime = Some ''2025-10-18T09:00:00Z'',
                      as_endTime = None \<rparr>,
                    \<lparr> as_name = Some ''s1'', as_startTime = Some ''2025-10-18T10:00:00Z'',
                      as_endTime = Some ''2025-10-18T10:20:00Z'' \<rparr>,
                    \<lparr> as_name = Some ''s2'', as_startTime = Some ''2025-10-18T10:25:00Z'',
                      as_endTime = Some ''2025-10-18T10:40:00Z'' \<rparr>])),
       isCurrentUser = (\<lambda>participant. True) \<rparr>"

text \<open>A Meet API with one conference record, whose only session of the user has no end.\<close>

definition exampleApi :: MeetApi where
  "exampleApi =
     \<lparr> listConferenceRecords = (\<lambda>pageToken.
         Inr \<lparr> conferenceRecords =
                 Some [\<lparr> cr_name = Some ''conferenceRecords/abc'',
                         cr_startTime = Some ''2025-10-18T10:00:00Z'',
                         cr_space = None \<rparr>],
               nextPageToken = None \<rparr>),
       listParticipants = (\<lambda>conferenceName.
         Inr (Some [\<lparr> ap_name = Some ''conferenceRecords/abc/participants/p1'',
                      ap_user = Some ''users/me'', ap_displayName = Some ''Me'' \<rparr>])),
       listParticipantSessions = (\<lambda>participantName.
         Inr (Some [\<lparr> as_name = Some ''s1'', as_startTime = Some ''2025-10-18T10:00:00Z'',
                      as_endTime = None \<rparr>])),
       isCurrentUser = (\<lambda>participant. True) \<rparr>"

text \<open>
  The variables of a process and the environment they validate to, an initialised
  Clockify service, three meetings \<open>a\<close>, \<open>b\<close> and \<open>c\<close>, a server that stores what it is
  sent, and servers that accept every creation call or refuse the second one.
\<close>

definition exampleProcessEnv :: ProcessEnv where
  "exampleProcessEnv =
     [(''GOOGLE_CLIENT_ID'', ''client''), (''GOOGLE_CLIENT_SECRET'', ''secret''),
      (''GOOGLE_REDIRECT_URI'', ''http://localhost:3000/oauth2callback''),
      (''GOOGLE_USER_EMAIL'', ''me@example.com''), (''CLOCKIFY_API_TOKEN'', ''token''),
      (''NODE_ENV'', ''production''), (''SYNC_DAYS'', ''7''),
      (''CLOCKIFY_API_BASE'', ''https://api.clockify.me/api''), (''CLOCKIFY_API_DELAY'', ''50''),
      (''MEET_PROJECT_NAME'', ''Google Meet'')]"

definition exampleEnv :: Env where
  "exampleEnv =
     \<lparr> GOOGLE_CLIENT_ID = ''client'', GOOGLE_CLIENT_SECRET = ''secret'',
       GOOGLE_REDIRECT_URI = ''http://localhost:3000/oauth2callback'',
       GOOGLE_USER_EMAIL = ''me@example.com'', CLOCKIFY_API_TOKEN = ''token'',
       NODE_ENV = ''production'', SYNC_DAYS = 7,
       CLOCKIFY_API_BASE = ''https://api.clockify.me/api'', CLOCKIFY_API_DELAY = 50,
       MEET_PROJECT_NAME = ''Google Meet'' \<rparr>"

definition exampleState :: ClockifyState where
  "exampleState = \<lparr> workspaceId = Some ''ws1'', userId = Some ''u1'', leagueProjectId = Some ''p1'' \<rparr>"

definition exampleMeeting :: "string \<Rightarrow> MeetingSession" where
  "exampleMeeting ident =
     \<lparr> meetingId = ident, meetingCode = ''abc-defg-hij'', meetingUri = [],
       startTime = 1760781600000, endTime = 1760784000000, duration = 2400 \<rparr>"

definition exampleMeetings :: "MeetingSession list" where
  "exampleMeetings = [exampleMeeting ''a'', exampleMeeting ''b'', exampleMeeting ''c'']"

definition exampleStored :: "CreateTimeEntryRequest \<Rightarrow> ClockifyTimeEntry" where
  "exampleStored body =
     \<lparr> te_id = ''e'', te_description = req_description body, te_projectId = orEmpty (projectId body),
       te_billable = req_billable body, te_start = req_start body, te_end = req_end body \<rparr>"

definition allSucceed :: "nat \<Rightarrow> CreateTimeEntryRequest \<Rightarrow> ClockifyTimeEntry HttpResult" where
  "allSucceed i body = Ok (exampleStored body)"

definition secondFails :: "nat \<Rightarrow> CreateTimeEntryRequest \<Rightarrow> ClockifyTimeEntry HttpResult" where
  "secondFails i body = (if i = 1 then NotOk ''Too Many Requests'' ''rate limit'' else Ok (exampleStored body))"

definition exampleClockifyApi :: ClockifyApi where
  "exampleClockifyApi =
     \<lparr> getUser = Ok \<lparr> cu_id = ''u1'', cu_email = ''me@example.com'', cu_name = ''Me'' \<rparr>,
       getWorkspaces = Ok [\<lparr> cw_id = ''ws1'', cw_name = ''Main'' \<rparr>],
       getProjects = (\<lambda>ws. Ok [\<lparr> cp_id = ''p1'', cp_name = ''Google Meet'' \<rparr>]),
       postProject = (\<lambda>ws name. Ok \<lparr> cp_id = ''p2'', cp_name = name \<rparr>) \<rparr>"

definition exampleRemote ::
  "MeetingSession list \<Rightarrow> (string + ClockifyTimeEntry list)
     \<Rightarrow> (nat \<Rightarrow> CreateTimeEntryRequest \<Rightarrow> ClockifyTimeEntry HttpResult) \<Rightarrow> Remote" where
  "exampleRemote meetings existing post =
     \<lparr> meetInitialize = Inr (), clockifyApi = exampleClockifyApi,
       conferenceRecordsResult = Inr meetings, timeEntriesResult = existing, postTimeEntry = post \<rparr>"

text \<open>An entry already in Clockify, and a server that refuses every creation.\<close>

definition exampleEntry :: "string \<Rightarrow> ClockifyTimeEntry" where
  "exampleEntry line =
     \<lparr> te_id = ''e0'', te_description = line, te_projectId = ''p1'', te_billable = False,
       te_start = ''2025-10-17T09:00:00Z'', te_end = ''2025-10-17T09:30:00Z'' \<rparr>"


text \<open>The state of a loop that has not yet seen a meeting.\<close>

definition freshLoop :: LoopState where
  "freshLoop = \<lparr> syncedCount = 0, skippedCount = 0, failedCount = 0, calls = [], postCount = 0 \<rparr>"

section \<open>Strings, minimum and maximum\<close>

lemma startsWith_iff: "startsWith s t \<longleftrightarrow> (\<exists>q. s = t @ q)"
  by (induction s t rule: startsWith.induct) auto

lemma includesStr_iff: "includesStr s t \<longleftrightarrow> (\<exists>p q. s = p @ t @ q)"
proof (induction s)
  case Nil
  then show ?case by (simp add: startsWith_iff)
next
  case (Cons x xs)
  show ?case
  proof
    assume "includesStr (x # xs) t"
    then consider "startsWith (x # xs) t" | "includesStr xs t" by auto
    then show "\<exists>p q. x # xs = p @ t @ q"
    proof cases
      case 1
      then obtain q where "x # xs = t @ q" by (auto simp: startsWith_iff)
      then have "x # xs = [] @ t @ q" by simp
      then show ?thesis by blast
    next
      case 2
      then obtain p q where "xs = p @ t @ q" using Cons.IH by blast
      then have "x # xs = (x # p) @ t @ q" by simp
      then show ?thesis by blast
    qed
  next
    assume "\<exists>p q. x # xs = p @ t @ q"
    then obtain p q where pq: "x # xs = p @ t @ q" by blast
    show "includesStr (x # xs) t"
    proof (cases p)
      case Nil
      with pq have "startsWith (x # xs) t" by (auto simp: startsWith_iff)
      then show ?thesis by simp
    next
      case (Cons y ys)
      with pq have "xs = ys @ t @ q" by simp
      then have "includesStr xs t" using Cons.IH by blast
      then show ?thesis by simp
    qed
  qed
qed

lemma Math_min_Min: "Math_min xs = Min (set xs)" if "xs \<noteq> []"
proof (cases xs)
  case Nil
  then show ?thesis using that by simp
next
  case (Cons a as)
  then show ?thesis using Min.set_eq_fold [of a as] by simp
qed

lemma Math_max_Max: "Math_max xs = Max (set xs)" if "xs \<noteq> []"
proof (cases xs)
  case Nil
  then show ?thesis using that by simp
next
  case (Cons a as)
  then show ?thesis using Max.set_eq_fold [of a as] by simp
qed

section \<open>Aggregation of sessions\<close>

lemma sessionTimes_empty_iff:
  "sessionTimes js userSessions = [] \<longleftrightarrow>
   filter (\<lambda>s. truthy (ps_startTime s) \<and> truthyOpt (ps_endTime s)) userSessions = []"
  by (simp add: sessionTimes_def)

lemma sessionTimes_kept:
  "sessionTimes js userSessions =
   map (\<lambda>s. (parseDate js (ps_startTime s), parseDate js (the (ps_endTime s))))
     (filter (\<lambda>s. ps_startTime s \<noteq> [] \<and> ps_endTime s \<noteq> None \<and> ps_endTime s \<noteq> Some [])
        userSessions)"
proof -
  have "(truthy (ps_startTime s) \<and> truthyOpt (ps_endTime s)) =
        (ps_startTime s \<noteq> [] \<and> ps_endTime s \<noteq> None \<and> ps_endTime s \<noteq> Some [])" for s
    by (cases "ps_endTime s") (simp_all add: truthy_def truthyOpt_def)
  then have eq: "(\<lambda>s. truthy (ps_startTime s) \<and> truthyOpt (ps_endTime s)) =
        (\<lambda>s. ps_startTime s \<noteq> [] \<and> ps_endTime s \<noteq> None \<and> ps_endTime s \<noteq> Some [])"
    by (intro ext)
  show ?thesis unfolding sessionTimes_def eq by (rule refl)
qed

lemma Min_le_Max_of_member:
  fixes f g :: "'a \<Rightarrow> int"
  assumes "finite A" and "x \<in> A" and "f x \<le> g x"
  shows "Min (f ` A) \<le> Max (g ` A)"
proof -
  have "Min (f ` A) \<le> f x" using assms(1,2) by simp
  moreover have "g x \<le> Max (g ` A)" using assms(1,2) by simp
  ultimately show ?thesis using assms(3) by linarith
qed

text \<open>
  C4, as amended. Keep the sessions of a meeting whose start is not empty and whose end
  is neither null nor empty. When one is kept, the aggregation produces a meeting whose
  start is the minimum of the starts of the kept sessions, whose end is the maximum of
  their ends and whose duration is the difference in whole seconds, rounded down; the
  sessions that are not kept play no part. The duration is not negative when every kept
  session ends no earlier than it starts. A conference record with a name and a start
  whose sessions these are has that meeting appended to the list by the loop over the
  records. With a session from 09:00 that has not ended and sessions from 10:00 to 10:20
  and from 10:25 to 10:40, the meeting runs from 10:00 to 10:40 and lasts 2400 seconds.
\<close>

theorem aggregate_earliest_start_latest_end:
  assumes "kept = filter (\<lambda>s. ps_startTime s \<noteq> [] \<and> ps_endTime s \<noteq> None \<and> ps_endTime s \<noteq> Some [])
                    userSessions"
    and "kept \<noteq> []"
  shows "\<exists>meeting. aggregate js recordName space userSessions = Some meeting
           \<and> meetingId meeting = recordName
           \<and> meetingCode meeting =
               (case space of None \<Rightarrow> []
                | Some sp \<Rightarrow> (case space_meetingCode sp of None \<Rightarrow> [] | Some c \<Rightarrow> c))
           \<and> meetingUri meeting =
               (case space of None \<Rightarrow> []
                | Some sp \<Rightarrow> (case space_meetingUri sp of None \<Rightarrow> [] | Some u \<Rightarrow> u))
           \<and> startTime meeting = Min ((\<lambda>s. parseDate js (ps_startTime s)) ` set kept)
           \<and> endTime meeting = Max ((\<lambda>s. parseDate js (the (ps_endTime s))) ` set kept)
           \<and> duration meeting = (endTime meeting - startTime meeting) div 1000
           \<and> ((\<forall>s \<in> set kept. parseDate js (ps_startTime s) \<le> parseDate js (the (ps_endTime s)))
                \<longrightarrow> 0 \<le> duration meeting)
           \<and> (cr_name confRecord = Some recordName \<and> recordName \<noteq> []
                \<and> cr_startTime confRecord = Some recordStart \<and> recordStart \<noteq> []
                \<and> cr_space confRecord = space
                \<and> getUserParticipantSessions api recordName = Inr userSessions \<longrightarrow>
                recordsLoop js api (confRecord # rest) meetings =
                  recordsLoop js api rest (meetings @ [meeting])
                \<and> recordsLoop js api [confRecord] meetings = Inr (meetings @ [meeting]))"
proof -
  let ?start = "\<lambda>s. parseDate js (ps_startTime s)"
  let ?end = "\<lambda>s. parseDate js (the (ps_endTime s))"
  let ?times = "sessionTimes js userSessions"
  have times: "?times = map (\<lambda>s. (?start s, ?end s)) kept"
    using assms(1) by (simp add: sessionTimes_kept)
  with assms(2) have tne: "?times \<noteq> []" by simp
  from assms have ne: "userSessions \<noteq> []" by auto
  have fsts: "map fst ?times = map ?start kept" and snds: "map snd ?times = map ?end kept"
    by (simp_all add: times comp_def)
  have lo: "Math_min (map fst ?times) = Min (?start ` set kept)"
    using assms(2) Math_min_Min [of "map ?start kept"] by (simp add: fsts)
  have hi: "Math_max (map snd ?times) = Max (?end ` set kept)"
    using assms(2) Math_max_Max [of "map ?end kept"] by (simp add: snds)
  have nonneg: "0 \<le> (Max (?end ` set kept) - Min (?start ` set kept)) div 1000"
    if wf: "\<forall>s \<in> set kept. ?start s \<le> ?end s"
  proof -
    from assms(2) obtain x where x: "x \<in> set kept" by (cases kept) auto
    with wf have "?start x \<le> ?end x" by blast
    with x have "Min (?start ` set kept) \<le> Max (?end ` set kept)"
      by (intro Min_le_Max_of_member) simp_all
    then show ?thesis by simp
  qed
  let ?meeting = "\<lparr> meetingId = recordName,
      meetingCode = (case space of None \<Rightarrow> [] | Some sp \<Rightarrow> orEmpty (space_meetingCode sp)),
      meetingUri = (case space of None \<Rightarrow> [] | Some sp \<Rightarrow> orEmpty (space_meetingUri sp)),
      startTime = Min (?start ` set kept), endTime = Max (?end ` set kept),
      duration = (Max (?end ` set kept) - Min (?start ` set kept)) div 1000 \<rparr>"
  have agg: "aggregate js recordName space userSessions = Some ?meeting"
    using tne ne by (simp add: aggregate_def Let_def lo hi)
  have loop: "recordsLoop js api (confRecord # rest) meetings =
                  recordsLoop js api rest (meetings @ [?meeting])
                \<and> recordsLoop js api [confRecord] meetings = Inr (meetings @ [?meeting])"
    if "cr_name confRecord = Some recordName" and "recordName \<noteq> []"
      and "cr_startTime confRecord = Some recordStart" and "recordStart \<noteq> []"
      and "cr_space confRecord = space"
      and "getUserParticipantSessions api recordName = Inr userSessions"
    using that agg by (simp add: truthyOpt_def truthy_def orEmpty_def)
  have "meetingId ?meeting = recordName"
    and "meetingCode ?meeting =
               (case space of None \<Rightarrow> []
                | Some sp \<Rightarrow> (case space_meetingCode sp of None \<Rightarrow> [] | Some c \<Rightarrow> c))"
    and "meetingUri ?meeting =
               (case space of None \<Rightarrow> []
                | Some sp \<Rightarrow> (case space_meetingUri sp of None \<Rightarrow> [] | Some u \<Rightarrow> u))"
    and "startTime ?meeting = Min (?start ` set kept)"
    and "endTime ?meeting = Max (?end ` set kept)"
    and "duration ?meeting = (endTime ?meeting - startTime ?meeting) div 1000"
    by (simp_all add: orEmpty_def split: option.split)
  moreover have "(\<forall>s \<in> set kept. ?start s \<le> ?end s) \<longrightarrow> 0 \<le> duration ?meeting"
    using nonneg by simp
  ultimately show ?thesis using agg loop by blast
qed

theorem aggregate_earliest_start_latest_end_witness:
  "filter (\<lambda>s. ps_startTime s \<noteq> [] \<and> ps_endTime s \<noteq> None \<and> ps_endTime s \<noteq> Some []) exampleSessions =
     [\<lparr> ps_name = ''s1'', ps_startTime = ''2025-10-18T10:00:00Z'', ps_endTime = Some ''2025-10-18T10:20:00Z'' \<rparr>,
      \<lparr> ps_name = ''s2'', ps_startTime = ''2025-10-18T10:25:00Z'', ps_endTime = Some ''2025-10-18T10:40:00Z'' \<rparr>]
   \<and> getUserParticipantSessions exampleApiRejoin ''conferenceRecords/abc'' = Inr exampleSessions
   \<and> aggregate exampleJs ''conferenceRecords/abc'' None exampleSessions =
       Some \<lparr> meetingId = ''conferenceRecords/abc'', meetingCode = [], meetingUri = [],
              startTime = 1760781600000, endTime = 1760784000000, duration = 2400 \<rparr>
   \<and> getConferenceRecords exampleJs exampleApiRejoin =
       Some (Inr [\<lparr> meetingId = ''conferenceRecords/abc'', meetingCode = [], meetingUri = [],
                    startTime = 1760781600000, endTime = 1760784000000, duration = 2400 \<rparr>])"
proof -
  let ?kept = "[\<lparr> ps_name = ''s1'', ps_startTime = ''2025-10-18T10:00:00Z'', ps_endTime = Some ''2025-10-18T10:20:00Z'' \<rparr>,
      \<lparr> ps_name = ''s2'', ps_startTime = ''2025-10-18T10:25:00Z'', ps_endTime = Some ''2025-10-18T10:40:00Z'' \<rparr>]"
  let ?rec = "\<lparr> cr_name = Some ''conferenceRecords/abc'', cr_startTime = Some ''2025-10-18T09:00:00Z'',
            cr_space = None \<rparr>"
  let ?meeting = "\<lparr> meetingId = ''conferenceRecords/abc'', meetingCode = [], meetingUri = [],
              startTime = 1760781600000, endTime = 1760784000000, duration = 2400 \<rparr>"
  have kept: "?kept = filter (\<lambda>s. ps_startTime s \<noteq> [] \<and> ps_endTime s \<noteq> None \<and> ps_endTime s \<noteq> Some [])
      exampleSessions"
    by (simp add: exampleSessions_def)
  have ne: "?kept \<noteq> []" by simp
  have us: "getUserParticipantSessions exampleApiRejoin ''conferenceRecords/abc'' = Inr exampleSessions"
    by (simp add: getUserParticipantSessions_def exampleApiRejoin_def pushSessions_def orEmpty_def
        orNull_def truthy_def truthyOpt_def exampleSessions_def)
  have wf: "\<forall>s \<in> set ?kept. parseDate exampleJs (ps_startTime s) \<le> parseDate exampleJs (the (ps_endTime s))"
    by (simp add: exampleJs_def exampleParse_def)
  from aggregate_earliest_start_latest_end [OF kept ne, of exampleJs "''conferenceRecords/abc''" None
      ?rec "''2025-10-18T09:00:00Z''" exampleApiRejoin "[]" "[]"] us wf
  obtain meeting where m: "aggregate exampleJs ''conferenceRecords/abc'' None exampleSessions = Some meeting"
    and i: "meetingId meeting = ''conferenceRecords/abc''"
    and c: "meetingCode meeting = []" and u: "meetingUri meeting = []"
    and lo: "startTime meeting = Min ((\<lambda>s. parseDate exampleJs (ps_startTime s)) ` set ?kept)"
    and hi: "endTime meeting = Max ((\<lambda>s. parseDate exampleJs (the (ps_endTime s))) ` set ?kept)"
    and d: "duration meeting = (endTime meeting - startTime meeting) div 1000"
    and nonneg: "0 \<le> duration meeting"
    and loop: "recordsLoop exampleJs exampleApiRejoin [?rec] [] = Inr ([] @ [meeting])"
    by auto
  from lo have lo': "startTime meeting = 1760781600000"
    by (simp add: exampleJs_def exampleParse_def)
  from hi have hi': "endTime meeting = 1760784000000"
    by (simp add: exampleJs_def exampleParse_def)
  from d have d': "duration meeting = 2400" by (simp add: lo' hi')
  have eq: "meeting = ?meeting"
    using i c u lo' hi' d' by (cases meeting) simp
  have page: "listConferenceRecords exampleApiRejoin None =
      Inr \<lparr> conferenceRecords = Some [?rec], nextPageToken = None \<rparr>"
    by (simp add: exampleApiRejoin_def)
  have "getConferenceRecords exampleJs exampleApiRejoin = Some (Inr [?meeting])"
    unfolding getConferenceRecords_def
    using loop eq by (subst pagesLoop.simps) (simp add: page truthyOpt_def del: recordsLoop.simps)
  with kept us m eq show ?thesis by simp
qed

text \<open>
  The claim as stated fails where it says that the duration is never negative. The
  aggregation does not compare a session's end with its start: a single session from
  10:20 to 10:00 is kept and gives a meeting that starts at 10:20, ends at 10:00 and
  lasts -1200 seconds.
\<close>

theorem aggregate_negative_duration_counterexample:
  "filter (\<lambda>s. ps_startTime s \<noteq> [] \<and> ps_endTime s \<noteq> None \<and> ps_endTime s \<noteq> Some []) [backwardSession] =
     [backwardSession]
   \<and> aggregate exampleJs ''conferenceRecords/abc'' None [backwardSession] =
       Some \<lparr> meetingId = ''conferenceRecords/abc'', meetingCode = [], meetingUri = [],
              startTime = 1760782800000, endTime = 1760781600000, duration = - 1200 \<rparr>
   \<and> \<not> 0 \<le> duration \<lparr> meetingId = ''conferenceRecords/abc'', meetingCode = [], meetingUri = [],
              startTime = 1760782800000, endTime = 1760781600000, duration = - 1200 \<rparr>"
  by (simp add: backwardSession_def aggregate_def sessionTimes_def truthy_def truthyOpt_def
      exampleJs_def exampleParse_def Let_def)

text \<open>
  C5. When no session of a meeting has both a start and an end, the aggregation gives
  nothing and the loop over the conference records goes on with the list of meetings
  unchanged. The example is a meeting whose only session has no end.
\<close>

theorem no_meeting_without_finished_session:
  assumes "getUserParticipantSessions api (orEmpty (cr_name confRecord)) = Inr userSessions"
    and "filter (\<lambda>s. truthy (ps_startTime s) \<and> truthyOpt (ps_endTime s)) userSessions = []"
  shows "aggregate js (orEmpty (cr_name confRecord)) (cr_space confRecord) userSessions = None
         \<and> recordsLoop js api (confRecord # rest) meetings = recordsLoop js api rest meetings"
proof -
  have agg: "aggregate js (orEmpty (cr_name confRecord)) (cr_space confRecord) userSessions = None"
    using assms(2) by (simp add: aggregate_def sessionTimes_def)
  then show ?thesis using assms(1) by simp
qed

theorem no_meeting_without_finished_session_witness:
  "getUserParticipantSessions exampleApi ''conferenceRecords/abc'' =
     Inr [\<lparr> ps_name = ''s1'', ps_startTime = ''2025-10-18T10:00:00Z'', ps_endTime = None \<rparr>]
   \<and> aggregate exampleJs ''conferenceRecords/abc'' None
         [\<lparr> ps_name = ''s1'', ps_startTime = ''2025-10-18T10:00:00Z'', ps_endTime = None \<rparr>] = None
   \<and> recordsLoop exampleJs exampleApi
         [\<lparr> cr_name = Some ''conferenceRecords/abc'', cr_startTime = Some ''2025-10-18T10:00:00Z'',
            cr_space = None \<rparr>] [] = Inr []
   \<and> getConferenceRecords exampleJs exampleApi = Some (Inr [])"
proof -
  let ?rec = "\<lparr> cr_name = Some ''conferenceRecords/abc'', cr_startTime = Some ''2025-10-18T10:00:00Z'',
            cr_space = None \<rparr>"
  let ?us = "[\<lparr> ps_name = ''s1'', ps_startTime = ''2025-10-18T10:00:00Z'', ps_endTime = None \<rparr>]"
  have us: "getUserParticipantSessions exampleApi (orEmpty (cr_name ?rec)) = Inr ?us"
    by (simp add: getUserParticipantSessions_def exampleApi_def pushSessions_def orEmpty_def
        orNull_def truthy_def truthyOpt_def)
  have flt: "filter (\<lambda>s. truthy (ps_startTime s) \<and> truthyOpt (ps_endTime s)) ?us = []"
    by (simp add: truthyOpt_def)
  from no_meeting_without_finished_session [OF us flt, of exampleJs "[]" "[]"]
  have agg: "aggregate exampleJs (orEmpty (cr_name ?rec)) (cr_space ?rec) ?us = None"
    and loop: "recordsLoop exampleJs exampleApi [?rec] [] = Inr []"
    by simp_all
  have page: "listConferenceRecords exampleApi None =
      Inr \<lparr> conferenceRecords = Some [?rec], nextPageToken = None \<rparr>"
    by (simp add: exampleApi_def)
  have "getConferenceRecords exampleJs exampleApi = Some (Inr [])"
    unfolding getConferenceRecords_def
    by (subst pagesLoop.simps) (simp add: page loop truthyOpt_def del: recordsLoop.simps)
  with us agg loop show ?thesis by (simp add: orEmpty_def)
qed

section \<open>The loop over the meetings\<close>

lemma createCalls_append: "createCalls (xs @ ys) = createCalls xs @ createCalls ys"
  by (induction xs rule: createCalls.induct) simp_all

lemma createdEntries_append: "createdEntries (xs @ ys) = createdEntries xs @ createdEntries ys"
  by (induction xs rule: createdEntries.induct) simp_all

lemma syncMeeting_total:
  "syncedCount (syncMeeting js env st post existingEntries meeting s)
     + skippedCount (syncMeeting js env st post existingEntries meeting s)
     + failedCount (syncMeeting js env st post existingEntries meeting s)
   = syncedCount s + skippedCount s + failedCount s + 1"
  by (simp add: syncMeeting_def split: prod.split sum.split)

lemma fold_syncMeeting_total:
  "syncedCount (fold (syncMeeting js env st post existingEntries) meetings s)
     + skippedCount (fold (syncMeeting js env st post existingEntries) meetings s)
     + failedCount (fold (syncMeeting js env st post existingEntries) meetings s)
   = syncedCount s + skippedCount s + failedCount s + length meetings"
proof (induction meetings arbitrary: s)
  case Nil
  show ?case by simp
next
  case (Cons meeting rest)
  show ?case
    using Cons.IH [of "syncMeeting js env st post existingEntries meeting s"]
      syncMeeting_total [of js env st post existingEntries meeting s]
    by simp
qed

lemma syncPass_cases:
  "syncPass js env st remote = (Inr r, log) \<Longrightarrow>
   \<exists>meetings. conferenceRecordsResult remote = Inr meetings \<and>
     (meetings = [] \<or> (\<exists>existingEntries. timeEntriesResult remote = Inr existingEntries))"
  by (auto simp: syncPass_def split: sum.splits if_splits)

text \<open>
  C9. A pass that returns reports counters with synced + skipped + failed =
  meetings_found, and meetings_found is the length of the list of meetings the fetch
  returned: every turn of the loop adds one to exactly one of the three counters.
\<close>

theorem counters_add_up:
  assumes "syncPass js env st remote = (Inr r, log)"
  shows "synced (stats r) + skipped (stats r) + failed (stats r) = meetings_found (stats r)
         \<and> (\<exists>meetings. conferenceRecordsResult remote = Inr meetings
               \<and> meetings_found (stats r) = length meetings)"
proof -
  from assms obtain meetings where m: "conferenceRecordsResult remote = Inr meetings"
    using syncPass_cases by blast
  show ?thesis
  proof (cases "meetings = []")
    case True
    with assms m have "stats r = \<lparr> meetings_found = 0, synced = 0, skipped = 0, failed = 0,
                                total_in_clockify = None \<rparr>"
      by (auto simp: syncPass_def)
    with m True show ?thesis by simp
  next
    case False
    with assms m obtain existingEntries where e: "timeEntriesResult remote = Inr existingEntries"
      using syncPass_cases by fastforce
    let ?init = "\<lparr> syncedCount = 0, skippedCount = 0, failedCount = 0,
                 calls = [GetConferenceRecords, GetTimeEntriesForDateRange], postCount = 0 \<rparr>"
    let ?s = "fold (syncMeeting js env st (postTimeEntry remote) existingEntries) meetings ?init"
    from assms m e False have r: "synced (stats r) = syncedCount ?s" "skipped (stats r) = skippedCount ?s"
      "failed (stats r) = failedCount ?s" "meetings_found (stats r) = length meetings"
      by (auto simp: syncPass_def Let_def)
    have "syncedCount ?s + skippedCount ?s + failedCount ?s = length meetings"
      using fold_syncMeeting_total [of js env st "postTimeEntry remote" existingEntries meetings ?init]
      by simp
    with r m show ?thesis by simp
  qed
qed

lemma createTimeEntry_description:
  "req_description (fst (createTimeEntry st post entry)) = req_description entry"
  by (simp add: createTimeEntry_def Let_def)

lemma syncMeeting_skip:
  "alreadySynced (meetingIdentifier meeting) existingEntries \<Longrightarrow>
   syncMeeting js env st post existingEntries meeting s = s\<lparr>skippedCount := skippedCount s + 1\<rparr>"
  by (simp add: syncMeeting_def)

text \<open>The branch of line 98 is never taken: the flag it tests is not there.\<close>

lemma not_dry_run: "\<not> truthyFlag (DRY_RUN env)"
  by (simp add: DRY_RUN_def truthyFlag_def)

lemma syncMeeting_live:
  assumes "\<not> alreadySynced (meetingIdentifier meeting) existingEntries"
  shows "skippedCount (syncMeeting js env st post existingEntries meeting s) = skippedCount s"
    and "map req_description (createCalls (calls (syncMeeting js env st post existingEntries meeting s)))
         = map req_description (createCalls (calls s)) @ [description js meeting]"
    and "syncedCount (syncMeeting js env st post existingEntries meeting s) + length (createdEntries (calls s))
         = syncedCount s + length (createdEntries (calls (syncMeeting js env st post existingEntries meeting s)))"
    and "failedCount (syncMeeting js env st post existingEntries meeting s)
           + length (createdEntries (calls (syncMeeting js env st post existingEntries meeting s)))
           + length (createCalls (calls s))
         = failedCount s + length (createdEntries (calls s))
           + length (createCalls (calls (syncMeeting js env st post existingEntries meeting s)))"
proof -
  obtain entry outcome where c: "createTimeEntry st (post (postCount s)) (timeEntry js meeting) = (entry, outcome)"
    by (cases "createTimeEntry st (post (postCount s)) (timeEntry js meeting)") auto
  have d: "req_description entry = description js meeting"
    using createTimeEntry_description [of st "post (postCount s)" "timeEntry js meeting"] c
    by (simp add: timeEntry_def)
  show "skippedCount (syncMeeting js env st post existingEntries meeting s) = skippedCount s"
    using assms c by (cases outcome) (simp_all add: syncMeeting_def not_dry_run)
  show "map req_description (createCalls (calls (syncMeeting js env st post existingEntries meeting s)))
         = map req_description (createCalls (calls s)) @ [description js meeting]"
    using assms c d by (cases outcome) (simp_all add: syncMeeting_def not_dry_run createCalls_append)
  show "syncedCount (syncMeeting js env st post existingEntries meeting s) + length (createdEntries (calls s))
         = syncedCount s + length (createdEntries (calls (syncMeeting js env st post existingEntries meeting s)))"
    using assms c by (cases outcome) (simp_all add: syncMeeting_def not_dry_run createdEntries_append)
  show "failedCount (syncMeeting js env st post existingEntries meeting s)
           + length (createdEntries (calls (syncMeeting js env st post existingEntries meeting s)))
           + length (createCalls (calls s))
         = failedCount s + length (createdEntries (calls s))
           + length (createCalls (calls (syncMeeting js env st post existingEntries meeting s)))"
    using assms c by (cases outcome) (simp_all add: syncMeeting_def not_dry_run createdEntries_append createCalls_append)
qed



section \<open>The pass\<close>

lemma syncPass_run:
  assumes "conferenceRecordsResult remote = Inr meetings" and "meetings \<noteq> []"
    and "timeEntriesResult remote = Inr existingEntries"
  shows "syncPass js env st remote =
     (let s = fold (syncMeeting js env st (postTimeEntry remote) existingEntries) meetings
                \<lparr> syncedCount = 0, skippedCount = 0, failedCount = 0,
                  calls = [GetConferenceRecords, GetTimeEntriesForDateRange], postCount = 0 \<rparr>
      in (Inr \<lparr> status = ''success'', message = ''Sync completed'',
                stats = \<lparr> meetings_found = length meetings, synced = syncedCount s,
                          skipped = skippedCount s, failed = failedCount s,
                          total_in_clockify =
                            Some (length (filter (\<lambda>entry. includesStr (te_description entry) ''[Meet:'')
                                    existingEntries) + syncedCount s) \<rparr>,
                dry_run = DRY_RUN env \<rparr>,
          calls s))"
  using assms by (simp add: syncPass_def Let_def)

lemma syncPass_empty:
  assumes "conferenceRecordsResult remote = Inr []"
  shows "syncPass js env st remote =
     (Inr \<lparr> status = ''success'', message = ''No meetings found'',
            stats = \<lparr> meetings_found = 0, synced = 0, skipped = 0, failed = 0, total_in_clockify = None \<rparr>,
            dry_run = None \<rparr>,
      [GetConferenceRecords])"
  using assms by (simp add: syncPass_def)

text \<open>
  C6. When the fetch of the meetings returns an empty list, the pass returns the outcome
  with four zero counters at once: the only call it has made is that fetch, so it has
  neither fetched the existing entries nor created an entry.
\<close>

theorem no_meetings_short_circuit:
  assumes "conferenceRecordsResult remote = Inr []"
  shows "\<exists>r log. syncPass js env st remote = (Inr r, log)
           \<and> status r = ''success''
           \<and> stats r = \<lparr> meetings_found = 0, synced = 0, skipped = 0, failed = 0, total_in_clockify = None \<rparr>
           \<and> log = [GetConferenceRecords]
           \<and> GetTimeEntriesForDateRange \<notin> set log
           \<and> createCalls log = []"
  using syncPass_empty [OF assms] by simp

theorem no_meetings_short_circuit_witness:
  "conferenceRecordsResult (exampleRemote [] (Inl ''not reached'') allSucceed) = Inr []
   \<and> syncPass exampleJs exampleEnv exampleState (exampleRemote [] (Inl ''not reached'') allSucceed) =
       (Inr \<lparr> status = ''success'', message = ''No meetings found'',
              stats = \<lparr> meetings_found = 0, synced = 0, skipped = 0, failed = 0, total_in_clockify = None \<rparr>,
              dry_run = None \<rparr>,
        [GetConferenceRecords])"
proof -
  have h: "conferenceRecordsResult (exampleRemote [] (Inl ''not reached'') allSucceed) = Inr []"
    by (simp add: exampleRemote_def)
  from no_meetings_short_circuit [OF h, of exampleJs exampleEnv exampleState]
  obtain r log where "syncPass exampleJs exampleEnv exampleState (exampleRemote [] (Inl ''not reached'') allSucceed) = (Inr r, log)"
    and "log = [GetConferenceRecords]" by blast
  moreover have "syncPass exampleJs exampleEnv exampleState (exampleRemote [] (Inl ''not reached'') allSucceed) =
       (Inr \<lparr> status = ''success'', message = ''No meetings found'',
              stats = \<lparr> meetings_found = 0, synced = 0, skipped = 0, failed = 0, total_in_clockify = None \<rparr>,
              dry_run = None \<rparr>,
        [GetConferenceRecords])"
    by (simp add: syncPass_def exampleRemote_def)
  ultimately show ?thesis using h by simp
qed

lemma validateEnvironment_drops_DRY_RUN:
  "validateEnvironment js ((''DRY_RUN'', val) # processEnv) = validateEnvironment js processEnv"
  by (simp add: validateEnvironment_def envSchema_parse_def stringKey_def numberKey_def)


section \<open>Failures\<close>





theorem counters_add_up_witness:
  "syncPass exampleJs exampleEnv exampleState
     (exampleRemote exampleMeetings (Inr [exampleEntry ''Standup [Meet:a] done'']) secondFails) =
     (Inr \<lparr> status = ''success'', message = ''Sync completed'',
            stats = \<lparr> meetings_found = 3, synced = 1, skipped = 1, failed = 1,
                      total_in_clockify = Some 2 \<rparr>,
            dry_run = None \<rparr>,
      snd (syncPass exampleJs exampleEnv exampleState
            (exampleRemote exampleMeetings (Inr [exampleEntry ''Standup [Meet:a] done'']) secondFails)))
   \<and> (1::nat) + 1 + 1 = 3
   \<and> conferenceRecordsResult
        (exampleRemote exampleMeetings (Inr [exampleEntry ''Standup [Meet:a] done'']) secondFails) =
       Inr exampleMeetings
   \<and> length exampleMeetings = 3"
proof -
  let ?remote = "exampleRemote exampleMeetings (Inr [exampleEntry ''Standup [Meet:a] done'']) secondFails"
  let ?r = "\<lparr> status = ''success'', message = ''Sync completed'',
            stats = \<lparr> meetings_found = 3, synced = 1, skipped = 1, failed = 1,
                      total_in_clockify = Some 2 \<rparr>,
            dry_run = None \<rparr>"
  have "fst (syncPass exampleJs exampleEnv exampleState ?remote) = Inr ?r"
    by code_simp
  then have run: "syncPass exampleJs exampleEnv exampleState ?remote =
      (Inr ?r, snd (syncPass exampleJs exampleEnv exampleState ?remote))"
    by (metis prod.collapse)
  have m: "conferenceRecordsResult ?remote = Inr exampleMeetings"
    by (simp add: exampleRemote_def)
  from counters_add_up [OF run] m have "meetings_found (stats ?r) = length exampleMeetings"
    by simp
  then have "length exampleMeetings = 3" by simp
  with run m show ?thesis by simp
qed

section \<open>A second pass\<close>


lemma description_ends_with_tag:
  "\<exists>p. description js meeting = p @ meetingIdentifier meeting"
proof -
  let ?d = "formatDuration (duration meeting)"
  have "description js meeting =
      (camera @ '' '' @ meetingDisplay js meeting @ '' | '' @ showInt (hours ?d) @ ''h '' @
       showInt (minutes ?d) @ ''m '') @ meetingIdentifier meeting"
    by (simp add: description_def Let_def)
  then show ?thesis by blast
qed





lemma alreadySynced_iff:
  "alreadySynced tag existingEntries \<longleftrightarrow>
   (\<exists>entry \<in> set existingEntries. includesStr (te_description entry) tag)"
  by (simp add: alreadySynced_def list_ex_iff)





section \<open>The fingerprint tag\<close>

lemma syncMeeting_skipped_iff:
  "skippedCount (syncMeeting js env st post existingEntries meeting s) =
   skippedCount s + (if alreadySynced (meetingIdentifier meeting) existingEntries then 1 else 0)"
proof (cases "alreadySynced (meetingIdentifier meeting) existingEntries")
  case True
  then show ?thesis by (simp add: syncMeeting_skip)
next
  case False
  then show ?thesis by (simp add: syncMeeting_live(1))
qed

lemma script_description_ends_with_tag:
  "\<exists>p. script_description js meeting = p @ script_meetingIdentifier js meeting"
proof -
  let ?d = "formatDuration (duration meeting)"
  let ?c = "if truthy (meetingCode meeting) then ''Code: '' @ meetingCode meeting else ''Meeting''"
  have "script_description js meeting =
      (camera @ '' '' @ ?c @ '' | '' @ showInt (hours ?d) @ ''h '' @ showInt (minutes ?d) @ ''m '')
      @ script_meetingIdentifier js meeting"
    by (simp add: script_description_def Let_def)
  then show ?thesis by blast
qed

text \<open>
  C3. The duplicate check answers true exactly when the description of some existing
  entry is the tag with something before it and something after it. The tag
  \<open>[Meet:abc123]\<close> is found in \<open>Standup [Meet:abc123] done\<close> and not in
  \<open>Standup [Meet:abc1234] done\<close>. The loop counts a meeting as skipped exactly when the
  check finds the token \<open>[Meet:\<close> + identifier + \<open>]\<close>, and the description of the entry it
  submits ends with that same token. The service's helper \<open>isMatchSynced\<close> is the same
  check for the token \<open>[Match:\<close> + identifier + \<open>]\<close>.
\<close>

theorem alreadySynced_is_substring_containment:
  "(alreadySynced tag existingEntries \<longleftrightarrow>
      (\<exists>entry \<in> set existingEntries. \<exists>p q. te_description entry = p @ tag @ q))
   \<and> alreadySynced ''[Meet:abc123]'' [exampleEntry ''Standup [Meet:abc123] done'']
   \<and> \<not> alreadySynced ''[Meet:abc123]'' [exampleEntry ''Standup [Meet:abc1234] done'']
   \<and> skippedCount (syncMeeting js env st post existingEntries meeting s) =
       skippedCount s + (if alreadySynced (''[Meet:'' @ meetingId meeting @ '']'') existingEntries then 1 else 0)
   \<and> (\<exists>p. req_description (timeEntry js meeting) = p @ ''[Meet:'' @ meetingId meeting @ '']'')
   \<and> isMatchSynced matchId existingEntries = alreadySynced (''[Match:'' @ matchId @ '']'') existingEntries"
proof -
  have a: "alreadySynced tag existingEntries \<longleftrightarrow>
      (\<exists>entry \<in> set existingEntries. \<exists>p q. te_description entry = p @ tag @ q)"
    by (simp add: alreadySynced_iff includesStr_iff)
  have b: "alreadySynced ''[Meet:abc123]'' [exampleEntry ''Standup [Meet:abc123] done'']"
    by (simp add: alreadySynced_def exampleEntry_def)
  have c: "\<not> alreadySynced ''[Meet:abc123]'' [exampleEntry ''Standup [Meet:abc1234] done'']"
    by (simp add: alreadySynced_def exampleEntry_def)
  have d: "skippedCount (syncMeeting js env st post existingEntries meeting s) =
       skippedCount s + (if alreadySynced (''[Meet:'' @ meetingId meeting @ '']'') existingEntries then 1 else 0)"
    using syncMeeting_skipped_iff [of js env st post existingEntries meeting s]
    by (simp add: meetingIdentifier_def)
  have e: "\<exists>p. req_description (timeEntry js meeting) = p @ ''[Meet:'' @ meetingId meeting @ '']''"
    using description_ends_with_tag [of js meeting] by (simp add: timeEntry_def meetingIdentifier_def)
  have f: "isMatchSynced matchId existingEntries = alreadySynced (''[Match:'' @ matchId @ '']'') existingEntries"
    by (simp add: isMatchSynced_def alreadySynced_def)
  from a b c d e f show ?thesis by blast
qed

text \<open>
  In the worker's pass the tag of a meeting is \<open>[Meet:\<close> + identifier + \<open>]\<close>: it does
  not change when the meeting's start, end or duration change, the loop skips the meeting
  exactly when the duplicate check finds it, and the description of the entry the loop
  submits ends with it. The command-line script builds another tag, \<open>[Meet:\<close> +
  identifier + \<open>:\<close> + the start instant in ISO form + \<open>]\<close>, searches for that one
  and ends its descriptions with it.
\<close>

lemma worker_tag_is_identifier_only:
  "meetingIdentifier meeting = ''[Meet:'' @ meetingId meeting @ '']''
   \<and> meetingIdentifier (meeting\<lparr>startTime := t1, endTime := t2, duration := d\<rparr>) = meetingIdentifier meeting
   \<and> skippedCount (syncMeeting js env st post existingEntries meeting s) =
       skippedCount s + (if alreadySynced (meetingIdentifier meeting) existingEntries then 1 else 0)
   \<and> (\<not> alreadySynced (meetingIdentifier meeting) existingEntries \<longrightarrow>
        (\<exists>p. map req_description (createCalls (calls (syncMeeting js env st post existingEntries meeting s))) =
              map req_description (createCalls (calls s)) @ [p @ meetingIdentifier meeting]))
   \<and> script_meetingIdentifier js meeting =
       ''[Meet:'' @ meetingId meeting @ '':'' @ toISOString js (startTime meeting) @ '']''
   \<and> skippedCount (script_syncMeeting js env st post existingEntries meeting s) =
       skippedCount s + (if alreadySynced (script_meetingIdentifier js meeting) existingEntries then 1 else 0)
   \<and> (\<exists>p. script_description js meeting = p @ script_meetingIdentifier js meeting)"
proof -
  have a: "meetingIdentifier meeting = ''[Meet:'' @ meetingId meeting @ '']''"
    and b: "meetingIdentifier (meeting\<lparr>startTime := t1, endTime := t2, duration := d\<rparr>) = meetingIdentifier meeting"
    by (simp_all add: meetingIdentifier_def)
  have c: "\<exists>p. map req_description (createCalls (calls (syncMeeting js env st post existingEntries meeting s))) =
              map req_description (createCalls (calls s)) @ [p @ meetingIdentifier meeting]"
    if "\<not> alreadySynced (meetingIdentifier meeting) existingEntries"
    using syncMeeting_live(2) [OF that, of js env st post s] description_ends_with_tag [of js meeting]
    by auto
  have e: "script_meetingIdentifier js meeting =
       ''[Meet:'' @ meetingId meeting @ '':'' @ toISOString js (startTime meeting) @ '']''"
    by (simp add: script_meetingIdentifier_def)
  have f: "skippedCount (script_syncMeeting js env st post existingEntries meeting s) =
       skippedCount s + (if alreadySynced (script_meetingIdentifier js meeting) existingEntries then 1 else 0)"
    by (simp add: script_syncMeeting_def split: prod.split sum.split)
  from a b c e f syncMeeting_skipped_iff [of js env st post existingEntries meeting s]
    script_description_ends_with_tag [of js meeting]
  show ?thesis by blast
qed

lemma worker_tag_is_identifier_only_example:
  "\<not> alreadySynced (meetingIdentifier (exampleMeeting ''a'')) []
   \<and> meetingIdentifier (exampleMeeting ''a'') = ''[Meet:a]''
   \<and> (\<exists>p. map req_description
              (createCalls (calls (syncMeeting exampleJs exampleEnv exampleState allSucceed []
                 (exampleMeeting ''a'')
                 \<lparr> syncedCount = 0, skippedCount = 0, failedCount = 0, calls = [], postCount = 0 \<rparr>))) =
            [p @ ''[Meet:a]''])
   \<and> script_meetingIdentifier exampleJs (exampleMeeting ''a'') = ''[Meet:a:2025-10-18T10:00:00.000Z]''"
proof -
  let ?m = "exampleMeeting ''a''"
  let ?s = "\<lparr> syncedCount = 0, skippedCount = 0, failedCount = 0, calls = [], postCount = 0 \<rparr>"
  have new: "\<not> alreadySynced (meetingIdentifier ?m) []" by (simp add: alreadySynced_def)
  have tag: "meetingIdentifier ?m = ''[Meet:a]''"
    by (simp add: meetingIdentifier_def exampleMeeting_def)
  have iso: "toISOString exampleJs (startTime ?m) = ''2025-10-18T10:00:00.000Z''"
    by (simp add: exampleJs_def examplePrint_def exampleMeeting_def)
  have mid: "meetingId ?m = ''a''" by (simp add: exampleMeeting_def)
  from worker_tag_is_identifier_only [of ?m undefined undefined undefined exampleJs exampleEnv
      exampleState allSucceed "[]" ?s] new
  have "\<exists>p. map req_description
              (createCalls (calls (syncMeeting exampleJs exampleEnv exampleState allSucceed [] ?m ?s))) =
            map req_description (createCalls (calls ?s)) @ [p @ meetingIdentifier ?m]"
    and "script_meetingIdentifier exampleJs ?m =
       ''[Meet:'' @ meetingId ?m @ '':'' @ toISOString exampleJs (startTime ?m) @ '']''"
    by blast+
  with new tag iso mid show ?thesis by simp
qed

text \<open>
  C2. For the meeting \<open>a\<close> that starts at 10:00 the worker's tag is \<open>[Meet:a]\<close>, built
  from the identifier only. The command-line script's tag for the same meeting is
  \<open>[Meet:a:2025-10-18T10:00:00.000Z]\<close>, and \<open>[Meet:a:2025-10-18T10:25:00.000Z]\<close> once
  the aggregated start has moved to 10:25. The script's loop, given the entry it created
  itself for the 10:00 start, does not skip the meeting with the moved start and submits a
  second entry, where the worker's loop in the same situation skips; and given the entry
  the worker created, the script submits the meeting again. The same happens the other
  way round, when the entry was created for the 10:25 start and an earlier session,
  ended since, has moved the start to 10:00.
\<close>

theorem script_tag_is_time_qualified:
  "script_meetingIdentifier exampleJs (exampleMeeting ''a'') = ''[Meet:a:2025-10-18T10:00:00.000Z]''
   \<and> meetingIdentifier (exampleMeeting ''a'') = ''[Meet:a]''
   \<and> script_meetingIdentifier exampleJs ((exampleMeeting ''a'')\<lparr>startTime := 1760783100000\<rparr>) =
       ''[Meet:a:2025-10-18T10:25:00.000Z]''
   \<and> map te_description
         (map exampleStored (createdEntries (calls
            (script_syncMeeting exampleJs exampleEnv exampleState allSucceed [] (exampleMeeting ''a'') freshLoop)))) =
       [camera @ '' Code: abc-defg-hij | 0h 40m [Meet:a:2025-10-18T10:00:00.000Z]'']
   \<and> skippedCount
         (script_syncMeeting exampleJs exampleEnv exampleState allSucceed
            (map exampleStored (createdEntries (calls
               (script_syncMeeting exampleJs exampleEnv exampleState allSucceed [] (exampleMeeting ''a'') freshLoop))))
            ((exampleMeeting ''a'')\<lparr>startTime := 1760783100000\<rparr>) freshLoop) = 0
   \<and> map req_description
         (createCalls (calls
            (script_syncMeeting exampleJs exampleEnv exampleState allSucceed
               (map exampleStored (createdEntries (calls
                  (script_syncMeeting exampleJs exampleEnv exampleState allSucceed [] (exampleMeeting ''a'') freshLoop))))
               ((exampleMeeting ''a'')\<lparr>startTime := 1760783100000\<rparr>) freshLoop))) =
       [camera @ '' Code: abc-defg-hij | 0h 40m [Meet:a:2025-10-18T10:25:00.000Z]'']
   \<and> skippedCount
         (syncMeeting exampleJs exampleEnv exampleState allSucceed
            (map exampleStored (createdEntries (calls
               (syncMeeting exampleJs exampleEnv exampleState allSucceed [] (exampleMeeting ''a'') freshLoop))))
            ((exampleMeeting ''a'')\<lparr>startTime := 1760783100000\<rparr>) freshLoop) = 1
   \<and> length
         (createCalls (calls
            (script_syncMeeting exampleJs exampleEnv exampleState allSucceed
               (map exampleStored (createdEntries (calls
                  (syncMeeting exampleJs exampleEnv exampleState allSucceed [] (exampleMeeting ''a'') freshLoop))))
               (exampleMeeting ''a'') freshLoop))) = 1
   \<and> skippedCount
         (script_syncMeeting exampleJs exampleEnv exampleState allSucceed
            (map exampleStored (createdEntries (calls
               (script_syncMeeting exampleJs exampleEnv exampleState allSucceed []
                  ((exampleMeeting ''a'')\<lparr>startTime := 1760783100000\<rparr>) freshLoop))))
            (exampleMeeting ''a'') freshLoop) = 0
   \<and> map req_description
         (createCalls (calls
            (script_syncMeeting exampleJs exampleEnv exampleState allSucceed
               (map exampleStored (createdEntries (calls
                  (script_syncMeeting exampleJs exampleEnv exampleState allSucceed []
                     ((exampleMeeting ''a'')\<lparr>startTime := 1760783100000\<rparr>) freshLoop))))
               (exampleMeeting ''a'') freshLoop))) =
       [camera @ '' Code: abc-defg-hij | 0h 40m [Meet:a:2025-10-18T10:00:00.000Z]'']"
  by code_simp

section \<open>The project of a created entry\<close>

lemma getOrCreateLeagueProject_ok:
  assumes "getOrCreateLeagueProject js env api st1 = (Inr u, st)"
  shows "workspaceId st = workspaceId st1 \<and> truthyOpt (workspaceId st)
         \<and> (\<exists>p. leagueProjectId st = Some (cp_id p)
               \<and> ((\<exists>projects. getProjects api (orEmpty (workspaceId st)) = Ok projects
                      \<and> find (\<lambda>p. toLowerCase js (cp_name p) = toLowerCase js (MEET_PROJECT_NAME env)) projects
                          = Some p)
                    \<or> postProject api (orEmpty (workspaceId st)) (MEET_PROJECT_NAME env) = Ok p))"
  using assms
  by (auto simp: getOrCreateLeagueProject_def split: if_splits HttpResult.splits option.splits)

lemma initialize_ok:
  assumes "initialize js env api st0 = (Inr u, st)"
  shows "truthyOpt (workspaceId st)
         \<and> (\<exists>p. leagueProjectId st = Some (cp_id p)
               \<and> ((\<exists>projects. getProjects api (orEmpty (workspaceId st)) = Ok projects
                      \<and> find (\<lambda>p. toLowerCase js (cp_name p) = toLowerCase js (MEET_PROJECT_NAME env)) projects
                          = Some p)
                    \<or> postProject api (orEmpty (workspaceId st)) (MEET_PROJECT_NAME env) = Ok p))"
proof -
  from assms obtain st1 where "getOrCreateLeagueProject js env api st1 = (Inr u, st)"
    by (auto simp: initialize_def Let_def split: HttpResult.splits list.splits)
  from getOrCreateLeagueProject_ok [OF this] show ?thesis by blast
qed

lemma createTimeEntry_project:
  assumes "truthyOpt (workspaceId st)" and "leagueProjectId st = Some pid" and "pid \<noteq> []"
  shows "createTimeEntry st post entry =
     (entry\<lparr>projectId := Some pid\<rparr>,
      case post (entry\<lparr>projectId := Some pid\<rparr>) of
        Rejected m \<Rightarrow> Inl m
      | NotOk statusText errorText \<Rightarrow>
          Inl (''Failed to create time entry: '' @ statusText @ '' - '' @ errorText)
      | Ok created \<Rightarrow> Inr created)"
  using assms by (simp add: createTimeEntry_def Let_def truthyOpt_def truthy_def)

lemma syncMeeting_projects:
  assumes "truthyOpt (workspaceId st)" and "leagueProjectId st = Some pid" and "pid \<noteq> []"
    and "list_all (\<lambda>e. projectId e = Some pid) (createCalls (calls s))"
  shows "list_all (\<lambda>e. projectId e = Some pid)
           (createCalls (calls (syncMeeting js env st post existingEntries meeting s)))"
proof -
  let ?entry = "(timeEntry js meeting)\<lparr>projectId := Some pid\<rparr>"
  obtain outcome where c:
    "createTimeEntry st (post (postCount s)) (timeEntry js meeting) = (?entry, outcome)"
    using createTimeEntry_project [OF assms(1-3)] by simp
  show ?thesis
    using assms(4) c by (cases outcome) (simp_all add: syncMeeting_def createCalls_append)
qed

lemma fold_syncMeeting_projects:
  assumes "truthyOpt (workspaceId st)" and "leagueProjectId st = Some pid" and "pid \<noteq> []"
  shows "list_all (\<lambda>e. projectId e = Some pid) (createCalls (calls s)) \<Longrightarrow>
         list_all (\<lambda>e. projectId e = Some pid)
           (createCalls (calls (fold (syncMeeting js env st post existingEntries) meetings s)))"
proof (induction meetings arbitrary: s)
  case Nil
  then show ?case by simp
next
  case (Cons meeting rest)
  from syncMeeting_projects [OF assms Cons.prems]
  have "list_all (\<lambda>e. projectId e = Some pid)
          (createCalls (calls (syncMeeting js env st post existingEntries meeting s)))" .
  from Cons.IH [OF this] show ?case by simp
qed

lemma syncPass_projects:
  assumes "truthyOpt (workspaceId st)" and "leagueProjectId st = Some pid" and "pid \<noteq> []"
  shows "list_all (\<lambda>e. projectId e = Some pid) (createCalls (snd (syncPass js env st remote)))"
proof (cases "conferenceRecordsResult remote")
  case (Inl e)
  then show ?thesis by (simp add: syncPass_def)
next
  case (Inr meetings)
  show ?thesis
  proof (cases "meetings = []")
    case True
    with Inr show ?thesis by (simp add: syncPass_empty)
  next
    case False
    show ?thesis
    proof (cases "timeEntriesResult remote")
      case (Inl e)
      with Inr False show ?thesis by (simp add: syncPass_def)
    next
      case x: (Inr existingEntries)
      let ?init = "\<lparr> syncedCount = 0, skippedCount = 0, failedCount = 0,
                     calls = [GetConferenceRecords, GetTimeEntriesForDateRange], postCount = 0 \<rparr>"
      have "list_all (\<lambda>e. projectId e = Some pid) (createCalls (calls ?init))" by simp
      from fold_syncMeeting_projects [OF assms this]
      show ?thesis using syncPass_run [OF Inr False x, of js env st] by (simp add: Let_def)
    qed
  qed
qed

text \<open>
  C10. After a successful initialisation the service holds the identifier of a project,
  the one found under the configured name or the one just created. When that identifier
  is not the empty string, \<open>createTimeEntry\<close> leaves the object it was given with that
  identifier in its \<open>projectId\<close> field, whatever the field held before, and submits that
  object; and every creation call of a pass run with that service carries the
  identifier.
\<close>

theorem createTimeEntry_attaches_the_project:
  assumes "initialize js env api st0 = (Inr u, st)"
  shows "\<exists>p. leagueProjectId st = Some (cp_id p)
           \<and> ((\<exists>projects. getProjects api (orEmpty (workspaceId st)) = Ok projects
                  \<and> find (\<lambda>p. toLowerCase js (cp_name p) = toLowerCase js (MEET_PROJECT_NAME env)) projects
                      = Some p)
                \<or> postProject api (orEmpty (workspaceId st)) (MEET_PROJECT_NAME env) = Ok p)
           \<and> (cp_id p \<noteq> [] \<longrightarrow>
                createTimeEntry st post entry =
                  (entry\<lparr>projectId := Some (cp_id p)\<rparr>,
                   case post (entry\<lparr>projectId := Some (cp_id p)\<rparr>) of
                     Rejected m \<Rightarrow> Inl m
                   | NotOk statusText errorText \<Rightarrow>
                       Inl (''Failed to create time entry: '' @ statusText @ '' - '' @ errorText)
                   | Ok created \<Rightarrow> Inr created)
                \<and> createTimeEntry st post (entry\<lparr>projectId := other\<rparr>) = createTimeEntry st post entry
                \<and> list_all (\<lambda>e. projectId e = Some (cp_id p))
                     (createCalls (snd (syncPass js' env' st remote))))"
proof -
  from initialize_ok [OF assms] obtain p where ws: "truthyOpt (workspaceId st)"
    and p: "leagueProjectId st = Some (cp_id p)"
    and origin: "(\<exists>projects. getProjects api (orEmpty (workspaceId st)) = Ok projects
                  \<and> find (\<lambda>p. toLowerCase js (cp_name p) = toLowerCase js (MEET_PROJECT_NAME env)) projects
                      = Some p)
                \<or> postProject api (orEmpty (workspaceId st)) (MEET_PROJECT_NAME env) = Ok p"
    by blast
  have "createTimeEntry st post entry =
                  (entry\<lparr>projectId := Some (cp_id p)\<rparr>,
                   case post (entry\<lparr>projectId := Some (cp_id p)\<rparr>) of
                     Rejected m \<Rightarrow> Inl m
                   | NotOk statusText errorText \<Rightarrow>
                       Inl (''Failed to create time entry: '' @ statusText @ '' - '' @ errorText)
                   | Ok created \<Rightarrow> Inr created)
                \<and> createTimeEntry st post (entry\<lparr>projectId := other\<rparr>) = createTimeEntry st post entry
                \<and> list_all (\<lambda>e. projectId e = Some (cp_id p))
                     (createCalls (snd (syncPass js' env' st remote)))"
    if ne: "cp_id p \<noteq> []"
    using createTimeEntry_project [OF ws p ne, of post entry]
      createTimeEntry_project [OF ws p ne, of post "entry\<lparr>projectId := other\<rparr>"]
      syncPass_projects [OF ws p ne, of js' env' remote]
    by simp
  with p origin show ?thesis by blast
qed

theorem createTimeEntry_attaches_the_project_witness:
  "initialize exampleJs exampleEnv exampleClockifyApi initialState = (Inr (), exampleState)
   \<and> leagueProjectId exampleState = Some ''p1''
   \<and> createTimeEntry exampleState (allSucceed 0)
        ((timeEntry exampleJs (exampleMeeting ''a''))\<lparr>projectId := Some ''other''\<rparr>) =
      ((timeEntry exampleJs (exampleMeeting ''a''))\<lparr>projectId := Some ''p1''\<rparr>,
       Inr (exampleStored ((timeEntry exampleJs (exampleMeeting ''a''))\<lparr>projectId := Some ''p1''\<rparr>)))
   \<and> list_all (\<lambda>e. projectId e = Some ''p1'')
        (createCalls (snd (syncPass exampleJs exampleEnv exampleState
                             (exampleRemote exampleMeetings (Inr []) secondFails))))"
proof -
  let ?entry = "(timeEntry exampleJs (exampleMeeting ''a''))\<lparr>projectId := Some ''other''\<rparr>"
  have init: "initialize exampleJs exampleEnv exampleClockifyApi initialState = (Inr (), exampleState)"
    by (simp add: initialize_def getOrCreateLeagueProject_def exampleClockifyApi_def exampleEnv_def
        exampleJs_def initialState_def exampleState_def truthyOpt_def truthy_def orEmpty_def)
  have l: "leagueProjectId exampleState = Some ''p1''" by (simp add: exampleState_def)
  from createTimeEntry_attaches_the_project [OF init, of "allSucceed 0" ?entry undefined exampleJs
      exampleEnv "exampleRemote exampleMeetings (Inr []) secondFails"] l
  have "createTimeEntry exampleState (allSucceed 0) ?entry =
      ((timeEntry exampleJs (exampleMeeting ''a''))\<lparr>projectId := Some ''p1''\<rparr>,
       Inr (exampleStored ((timeEntry exampleJs (exampleMeeting ''a''))\<lparr>projectId := Some ''p1''\<rparr>)))
     \<and> list_all (\<lambda>e. projectId e = Some ''p1'')
        (createCalls (snd (syncPass exampleJs exampleEnv exampleState
                             (exampleRemote exampleMeetings (Inr []) secondFails))))"
    by (auto simp: allSucceed_def)
  with init l show ?thesis by simp
qed

section \<open>The whole job\<close>

text \<open>
  The job is the pass once the environment is validated and both services are
  initialised; an initialisation that throws ends the job before any fetch.
\<close>

lemma processSyncJob_initialised:
  assumes "validateEnvironment js processEnv = Some env"
    and "meetInitialize remote = Inr u"
    and "initialize js env (clockifyApi remote) initialState = (Inr u', st)"
  shows "processSyncJob js processEnv remote = Some (syncPass js env st remote)"
  using assms by (simp add: processSyncJob_def)

lemma processSyncJob_not_initialised:
  assumes "validateEnvironment js processEnv = Some env"
    and "meetInitialize remote = Inl e
           \<or> meetInitialize remote = Inr u \<and> initialize js env (clockifyApi remote) initialState = (Inl e, st)"
  shows "processSyncJob js processEnv remote = Some (Inl e, [])"
  using assms by (auto simp: processSyncJob_def)

lemma processSyncJob_example:
  "map_option fst (processSyncJob exampleJs exampleProcessEnv (exampleRemote exampleMeetings (Inr []) secondFails)) =
     Some (Inr \<lparr> status = ''success'', message = ''Sync completed'',
                 stats = \<lparr> meetings_found = 3, synced = 2, skipped = 0, failed = 1,
                           total_in_clockify = Some 2 \<rparr>,
                 dry_run = None \<rparr>)"
  by code_simp

end
